theory Spec2Isabelle
  imports Complex_Main "HOL-Library.Sublist"
begin

section \<open>Python strings\<close>




definition isdigit :: "char \<Rightarrow> bool" where
  "isdigit c = (c \<in> set ''0123456789'')"



text \<open>\<open>s.startswith(p)\<close> is \<^const>\<open>prefix\<close>; \<open>sub in s\<close> is \<^const>\<open>sublist\<close> (a contiguous run).\<close>

definition startswith :: "string \<Rightarrow> string \<Rightarrow> bool" where
  "startswith s p = prefix p s"

definition py_in :: "string \<Rightarrow> string \<Rightarrow> bool" where
  "py_in sub s = sublist sub s"

text \<open>\<open>s.find(sub)\<close>: the least index where \<open>sub\<close> starts, or \<open>-1\<close>.\<close>

fun find_from :: "nat \<Rightarrow> string \<Rightarrow> string \<Rightarrow> int" where
  "find_from i sub [] = (if sub = [] then int i else - 1)"
| "find_from i sub (c # cs) =
     (if prefix sub (c # cs) then int i else find_from (Suc i) sub cs)"

definition py_find :: "string \<Rightarrow> string \<Rightarrow> int" where
  "py_find s sub = find_from 0 sub s"

text \<open>\<open>s[i:-1]\<close> for \<open>i \<ge> 0\<close>: from index \<open>i\<close> up to, not including, the last character.\<close>

definition slice_to_last :: "string \<Rightarrow> nat \<Rightarrow> string" where
  "slice_to_last s i = drop i (butlast s)"

definition digit_val :: "char \<Rightarrow> nat" where
  "digit_val c = (of_char c :: nat) - 48"

fun join :: "string \<Rightarrow> string list \<Rightarrow> string" where
  "join sep [] = []"
| "join sep [x] = x"
| "join sep (x # y # ys) = x @ sep @ join sep (y # ys)"

definition dq :: string where
  "dq = [CHR 0x22]"

definition sq :: string where
  "sq = [CHR 0x27]"

definition nl :: string where
  "nl = [CHR 0x0A]"

definition tab :: string where
  "tab = [CHR 0x09]"

type_synonym table_name = string

type_synonym file_name = string

type_synonym format_name = string

type_synonym statement = string

section \<open>Errors\<close>

text \<open>
  The exceptions the code raises itself (\<open>ValueError\<close>), the ones the interpreter and the
  libraries raise on the way (\<open>TypeError\<close>, \<open>KeyError\<close>, \<open>AttributeError\<close>, \<open>OverflowError\<close>),
  and the failures of the two collaborators.
\<close>

datatype error =
    ValueError string
  | TypeError string
  | KeyError string
  | AttributeError string
  | OverflowError string
  | DatabaseError string
  | StorageError string

text \<open>\<open>int(ds)\<close> on a string of decimal digits; the empty string is a \<open>ValueError\<close>.\<close>

definition decimal :: "string \<Rightarrow> nat" where
  "decimal ds = foldl (\<lambda>a c. 10 * a + digit_val c) 0 ds"

definition py_int :: "string \<Rightarrow> error + nat" where
  "py_int ds =
     (if ds = [] then Inl (ValueError ''invalid literal for int() with base 10'')
      else Inr (decimal ds))"

section \<open>Datasets\<close>

text \<open>
  The native type tags are the numpy dtypes a pandas column carries. \<open>dtype_name\<close> is
  \<open>dtype.name\<close>.
\<close>

datatype int_width = W8 | W16 | W32 | W64

datatype float_width = F16 | F32 | F64

datatype dtype =
    DInt int_width
  | DUInt int_width
  | DFloat float_width
  | DBool
  | DObject
  | DDatetime64
  | DTimedelta64

fun int_width_name :: "int_width \<Rightarrow> string" where
  "int_width_name W8 = ''8''"
| "int_width_name W16 = ''16''"
| "int_width_name W32 = ''32''"
| "int_width_name W64 = ''64''"

fun float_width_name :: "float_width \<Rightarrow> string" where
  "float_width_name F16 = ''16''"
| "float_width_name F32 = ''32''"
| "float_width_name F64 = ''64''"

fun dtype_name :: "dtype \<Rightarrow> string" where
  "dtype_name (DInt w) = ''int'' @ int_width_name w"
| "dtype_name (DUInt w) = ''uint'' @ int_width_name w"
| "dtype_name (DFloat w) = ''float'' @ float_width_name w"
| "dtype_name DBool = ''bool''"
| "dtype_name DObject = ''object''"
| "dtype_name DDatetime64 = ''datetime64[ns]''"
| "dtype_name DTimedelta64 = ''timedelta64[ns]''"

text \<open>
  \<open>dtype == 'float'\<close> compares a numpy dtype with a string: numpy reads the string as a
  dtype and compares the two. \<open>np_dtype\<close> is that reading for the five strings
  \<open>get_defaults\<close> uses: \<open>'int'\<close> and \<open>'float'\<close> are the 64-bit types (on a platform whose
  default integer is 32 bits wide \<open>'int'\<close> is \<open>int32\<close>; the default that \<open>get_defaults\<close>
  returns for an integer is \<open>0\<close> either way), and \<open>'str'\<close> is a fixed-width unicode type,
  which no pandas column has.
\<close>

definition np_dtype :: "string \<Rightarrow> dtype option" where
  "np_dtype s =
     (if s = ''object'' then Some DObject
      else if s = ''int'' then Some (DInt W64)
      else if s = ''bool'' then Some DBool
      else if s = ''float'' then Some (DFloat F64)
      else None)"

definition dtype_eq :: "dtype \<Rightarrow> string \<Rightarrow> bool" where
  "dtype_eq d s = (np_dtype s = Some d)"

datatype pyval = PyStr string | PyInt int | PyBool bool | PyFloat real | PyNone

text \<open>The dtype pandas gives a column that is assigned one scalar.\<close>

fun scalar_dtype :: "pyval \<Rightarrow> dtype" where
  "scalar_dtype (PyStr s) = DObject"
| "scalar_dtype (PyInt i) = DInt W64"
| "scalar_dtype (PyBool b) = DBool"
| "scalar_dtype (PyFloat x) = DFloat F64"
| "scalar_dtype PyNone = DObject"

datatype column = Column (col_name: string) (col_dtype: dtype) (col_values: "pyval list")

record dataframe =
  index_name :: "string option"
  index_dtype :: dtype
  index_vals :: "pyval list"
  cols :: "column list"

definition columns :: "dataframe \<Rightarrow> string list" where
  "columns df = map col_name (cols df)"

text \<open>\<open>df.drop(labels, axis=1)\<close>: a label that is no column is a \<open>KeyError\<close>.\<close>

definition drop_columns :: "dataframe \<Rightarrow> string list \<Rightarrow> error + dataframe" where
  "drop_columns df labels =
     (case find (\<lambda>l. l \<notin> set (columns df)) labels of
        Some l \<Rightarrow> Inl (KeyError l)
      | None \<Rightarrow> Inr (df\<lparr>cols := filter (\<lambda>c. col_name c \<notin> set labels) (cols df)\<rparr>))"

text \<open>\<open>df[name] = scalar\<close>: a new column at the end, or the named column replaced.\<close>

definition setitem_scalar :: "dataframe \<Rightarrow> string \<Rightarrow> pyval \<Rightarrow> dataframe" where
  "setitem_scalar df name v =
     (let c = Column name (scalar_dtype v) (replicate (length (index_vals df)) v) in
      if name \<in> set (columns df)
      then df\<lparr>cols := map (\<lambda>c'. if col_name c' = name then c else c') (cols df)\<rparr>
      else df\<lparr>cols := cols df @ [c]\<rparr>)"

text \<open>\<open>df[name].dtype\<close>: with a repeated name \<open>df[name]\<close> is a frame, which has no \<open>dtype\<close>.\<close>

definition getitem_dtype :: "dataframe \<Rightarrow> string \<Rightarrow> error + dtype" where
  "getitem_dtype df name =
     (case filter (\<lambda>c. col_name c = name) (cols df) of
        [] \<Rightarrow> Inl (KeyError name)
      | [c] \<Rightarrow> Inr (col_dtype c)
      | _ \<Rightarrow> Inl (AttributeError ''dtype''))"

text \<open>\<open>df[labels]\<close>: for each label in turn, the columns that carry it.\<close>

definition getitem_list :: "dataframe \<Rightarrow> string list \<Rightarrow> error + dataframe" where
  "getitem_list df labels =
     (case find (\<lambda>l. l \<notin> set (columns df)) labels of
        Some l \<Rightarrow> Inl (KeyError l)
      | None \<Rightarrow>
          Inr (df\<lparr>cols := concat (map (\<lambda>l. filter (\<lambda>c. col_name c = l) (cols df)) labels)\<rparr>))"




section \<open>Schema reconciliation\<close>

definition get_defaults :: "dtype \<Rightarrow> pyval" where
  "get_defaults input_type =
     (let default_val = PyInt 0;
          default_val = (if dtype_eq input_type ''object'' then PyStr ''na'' else default_val);
          default_val = (if dtype_eq input_type ''str'' then PyStr ''na'' else default_val);
          default_val = (if dtype_eq input_type ''int'' then PyInt 0 else default_val);
          default_val = (if dtype_eq input_type ''bool'' then PyBool False else default_val);
          default_val = (if dtype_eq input_type ''float'' then PyFloat 0 else default_val)
      in default_val)"

text \<open>The second loop of \<open>invalidate_to_schema\<close> (lines 119-121), over \<open>schema_df.columns\<close>.\<close>

fun add_missing :: "dataframe \<Rightarrow> string list \<Rightarrow> dataframe \<Rightarrow> error + dataframe" where
  "add_missing schema_df [] raw_df = Inr raw_df"
| "add_missing schema_df (schema_col_name # rest) raw_df =
     (if schema_col_name \<notin> set (columns raw_df) then
        (case getitem_dtype schema_df schema_col_name of
           Inl e \<Rightarrow> Inl e
         | Inr t \<Rightarrow>
             add_missing schema_df rest (setitem_scalar raw_df schema_col_name (get_defaults t)))
      else add_missing schema_df rest raw_df)"

definition invalidate_to_schema :: "dataframe \<Rightarrow> dataframe option \<Rightarrow> error + dataframe" where
  "invalidate_to_schema raw_df schema_opt =
     (case schema_opt of
        None \<Rightarrow> Inr raw_df
      | Some schema_df \<Rightarrow>
          if length (index_vals schema_df) = 0 then Inr raw_df
          else
            (let cols_to_drop = filter (\<lambda>n. n \<notin> set (columns schema_df)) (columns raw_df) in
             case drop_columns raw_df cols_to_drop of
               Inl e \<Rightarrow> Inl e
             | Inr raw1 \<Rightarrow>
                 (case add_missing schema_df (columns schema_df) raw1 of
                    Inl e \<Rightarrow> Inl e
                  | Inr raw2 \<Rightarrow> getitem_list raw2 (columns schema_df))))"

section \<open>Column name validation\<close>




section \<open>Type mapping\<close>

definition pd_dtype_to_redshift_dtype :: "string \<Rightarrow> string" where
  "pd_dtype_to_redshift_dtype dtype =
     (if startswith dtype ''int64'' then ''BIGINT''
      else if startswith dtype ''int'' then ''INTEGER''
      else if startswith dtype ''float'' then ''REAL''
      else if startswith dtype ''datetime'' then ''TIMESTAMP''
      else if dtype = ''bool'' then ''BOOLEAN''
      else ''VARCHAR(MAX)'')"

text \<open>
  \<open>json_columns\<close> is \<open>None\<close> by default; \<open>col_name not in None\<close> is a \<open>TypeError\<close>, raised at
  the first column.
\<close>

definition get_column_data_types ::
  "dataframe \<Rightarrow> bool \<Rightarrow> string list option \<Rightarrow> error + string list" where
  "get_column_data_types data_frame index json_columns =
     (case (if cols data_frame = [] then Inr []
            else case json_columns of
                   None \<Rightarrow> Inl (TypeError (''argument of type '' @ sq @ ''NoneType'' @ sq
                                         @ '' is not iterable''))
                 | Some js \<Rightarrow>
                     Inr (map (\<lambda>c. if col_name c \<notin> set js
                                    then pd_dtype_to_redshift_dtype (dtype_name (col_dtype c))
                                    else ''SUPER'')
                              (cols data_frame))) of
        Inl e \<Rightarrow> Inl e
      | Inr column_data_types \<Rightarrow>
          if index
          then Inr (pd_dtype_to_redshift_dtype (dtype_name (index_dtype data_frame))
                      # column_data_types)
          else Inr column_data_types)"

section \<open>Window boundaries\<close>

text \<open>
  A boundary is returned as the text it was, or as a \<open>date\<close>, written here as its proleptic
  Gregorian ordinal (\<open>date.toordinal()\<close>, between 1 and 3652059). \<open>today\<close> is the reading of
  \<open>date.today()\<close>. \<open>today + timedelta(days=-digit)\<close> overflows when the day count exceeds
  what a \<open>timedelta\<close> holds or the date leaves the calendar.
\<close>

datatype ts_value = TsText string | TsDate int

definition date_minus_days :: "int \<Rightarrow> nat \<Rightarrow> error + ts_value" where
  "date_minus_days today digit =
     (if int digit > 999999999 then Inl (OverflowError ''days must have magnitude <= 999999999'')
      else if today - int digit < 1 \<or> today - int digit > 3652059
      then Inl (OverflowError ''date value out of range'')
      else Inr (TsDate (today - int digit)))"

definition date_converter :: "int \<Rightarrow> string \<Rightarrow> error + ts_value" where
  "date_converter today ts =
     (if py_in ''current_date'' ts then
        (let interval_idx = py_find ts ''interval'';
             day_idx = py_find ts ''day''
         in if interval_idx \<noteq> - 1 \<and> day_idx \<noteq> - 1 then
              (case py_int (filter isdigit (slice_to_last ts (nat interval_idx))) of
                 Inl e \<Rightarrow> Inl e
               | Inr digit \<Rightarrow> date_minus_days today digit)
            else Inr (TsDate today))
      else Inr (TsText ts))"

section \<open>The collaborators\<close>

text \<open>
  The warehouse connection and the object store are given interfaces. Every call made on
  them is recorded as an event; whether a call raises is decided by the \<open>world\<close>, which may
  look at the calls made so far. \<open>rollback\<close> and the local file write are taken to return
  normally. \<open>w_to_csv\<close> is \<open>DataFrame.to_csv\<close>, \<open>w_date_str\<close> is \<open>str\<close> on a date and
  \<open>w_fetch\<close> is the frame built from \<open>cursor.description\<close> and \<open>cursor.fetchall()\<close>.
  Logging is not modelled.
\<close>

datatype event =
    Execute string
  | Commit
  | Rollback
  | SaveLocal string string
  | PutObject string string string "(string \<times> pyval) list"

record world =
  w_today :: int
  w_date_str :: "int \<Rightarrow> string"
  w_to_csv :: "dataframe \<Rightarrow> bool \<Rightarrow> string \<Rightarrow> string"
  w_execute :: "event list \<Rightarrow> string \<Rightarrow> error option"
  w_fetch :: "event list \<Rightarrow> dataframe"
  w_commit :: "event list \<Rightarrow> error option"
  w_put_object ::
    "event list \<Rightarrow> string \<Rightarrow> string \<Rightarrow> string \<Rightarrow> (string \<times> pyval) list \<Rightarrow> error option"

text \<open>The module's global variables, as \<open>connect_to_s3\<close> leaves them.\<close>

record session =
  s3_bucket_var :: string
  s3_subdirectory_var :: string
  aws_1 :: "string option"
  aws_2 :: "string option"
  aws_role :: "string option"
  aws_token :: string

definition truthy :: "string option \<Rightarrow> bool" where
  "truthy x = (case x of None \<Rightarrow> False | Some s \<Rightarrow> s \<noteq> [])"


section \<open>Staging upload\<close>




section \<open>Statements\<close>

text \<open>Lines 248-251 of \<open>create_redshift_table\<close>: what a sort key adds to the statement.\<close>

definition sort_clause :: "bool \<Rightarrow> string \<Rightarrow> string" where
  "sort_clause sort_interleaved sortkey =
     (if length sortkey > 0
      then (if sort_interleaved then '' interleaved'' else []) @ '' sortkey('' @ sortkey @ '')''
      else [])"

text \<open>
  Lines 224-251 of \<open>create_redshift_table\<close>: the statement it builds, or the error raised on
  the way. The rest of the function sends it (\<open>append\<close> and \<open>verbose\<close> take no part).
\<close>

definition create_table_query ::
  "dataframe \<Rightarrow> string \<Rightarrow> string list option \<Rightarrow> bool \<Rightarrow> string \<Rightarrow> string \<Rightarrow> bool \<Rightarrow> string \<Rightarrow>
   string list option \<Rightarrow> error + string" where
  "create_table_query data_frame redshift_table_name column_data_types index diststyle distkey
     sort_interleaved sortkey json_columns =
     (let column_list =
            (if index
             then (if truthy (index_name data_frame) then the (index_name data_frame)
                   else ''index'') # columns data_frame
             else columns data_frame)
      in case (case column_data_types of
                 None \<Rightarrow> get_column_data_types data_frame index json_columns
               | Some given \<Rightarrow> Inr given) of
           Inl e \<Rightarrow> Inl e
         | Inr types \<Rightarrow>
             (let columns_and_data_type =
                    join '', '' (map2 (\<lambda>x y. x @ '' '' @ y) column_list types);
                  query = ''create table '' @ redshift_table_name @ '' (''
                            @ columns_and_data_type @ '')''
              in if distkey = [] then
                   (if diststyle \<notin> set [''even'', ''all'']
                    then Inl (ValueError (''diststyle must be either '' @ sq @ ''even'' @ sq
                                            @ '' or '' @ sq @ ''all'' @ sq))
                    else Inr (query @ '' diststyle '' @ diststyle
                                @ sort_clause sort_interleaved sortkey))
                 else Inr (query @ '' distkey('' @ distkey @ '')''
                             @ sort_clause sort_interleaved sortkey)))"

definition create_redshift_table ::
  "world \<Rightarrow> event list \<Rightarrow> dataframe \<Rightarrow> string \<Rightarrow> string list option \<Rightarrow> bool \<Rightarrow> string \<Rightarrow> string
   \<Rightarrow> bool \<Rightarrow> string \<Rightarrow> string list option \<Rightarrow> (error + unit) \<times> event list" where
  "create_redshift_table w tr data_frame redshift_table_name column_data_types index diststyle
     distkey sort_interleaved sortkey json_columns =
     (case create_table_query data_frame redshift_table_name column_data_types index diststyle
             distkey sort_interleaved sortkey json_columns of
        Inl e \<Rightarrow> (Inl e, tr)
      | Inr create_query \<Rightarrow>
          (let drop_query = ''drop table if exists '' @ redshift_table_name @ '';'';
               tr1 = tr @ [Execute drop_query];
               tr2 = tr1 @ [Execute create_query];
               tr3 = tr2 @ [Commit]
           in case w_execute w tr drop_query of
                Some e \<Rightarrow> (Inl e, tr1)
              | None \<Rightarrow>
                  (case w_execute w tr1 create_query of
                     Some e \<Rightarrow> (Inl e, tr2)
                   | None \<Rightarrow>
                       (case w_commit w tr2 of
                          Some e \<Rightarrow> (Inl e, tr3)
                        | None \<Rightarrow> (Inr (), tr3)))))"

text \<open>Lines 265-280 of \<open>s3_to_redshift\<close>: the \<open>authorization\<close> text.\<close>

definition authorization_clause :: "session \<Rightarrow> string \<Rightarrow> string" where
  "authorization_clause ss rs_iam_role =
     (if rs_iam_role \<noteq> [] then
        nl @ ''        iam_role '' @ sq @ rs_iam_role @ sq @ nl @ ''        ''
      else if truthy (aws_1 ss) \<and> truthy (aws_2 ss) then
        nl @ ''        access_key_id '' @ sq @ the (aws_1 ss) @ sq @ nl
           @ ''        secret_access_key '' @ sq @ the (aws_2 ss) @ sq @ nl @ ''        ''
      else if truthy (aws_role ss) then
        nl @ ''        iam_role '' @ sq @ the (aws_role ss) @ sq @ nl @ ''        ''
      else [])"

text \<open>Lines 262-299 of \<open>s3_to_redshift\<close>: the statement it sends.\<close>

definition copy_statement ::
  "session \<Rightarrow> table_name \<Rightarrow> file_name \<Rightarrow> string \<Rightarrow> string \<Rightarrow> string \<Rightarrow> format_name \<Rightarrow>
   format_name \<Rightarrow> string \<Rightarrow> string \<Rightarrow> statement" where
  "copy_statement ss redshift_table_name csv_name rs_iam_role delimiter quotechar dateformat
     timeformat region parameters =
     (let bucket_name = ''s3://'' @ s3_bucket_var ss @ ''/'' @ s3_subdirectory_var ss @ csv_name;
          s3_to_sql =
            nl @ ''       copy '' @ redshift_table_name
             @ nl @ ''       from '' @ sq @ bucket_name @ sq
             @ nl @ ''       delimiter '' @ sq @ delimiter @ sq
             @ nl @ ''       ignoreheader 1''
             @ nl @ ''       csv quote as '' @ sq @ quotechar @ sq
             @ nl @ ''       dateformat '' @ sq @ dateformat @ sq
             @ nl @ ''       timeformat '' @ sq @ timeformat @ sq
             @ nl @ ''       '' @ authorization_clause ss rs_iam_role
             @ nl @ ''       '' @ parameters
             @ nl @ ''       '';
          s3_to_sql = (if region \<noteq> [] then s3_to_sql @ ''region '' @ sq @ region @ sq
                       else s3_to_sql);
          s3_to_sql = (if aws_token ss \<noteq> []
                       then s3_to_sql @ nl @ tab @ ''session_token '' @ sq @ aws_token ss @ sq
                       else s3_to_sql)
      in s3_to_sql @ '';'')"

text \<open>
  The \<open>try\<close> block holds \<open>execute\<close> and \<open>commit\<close>; the handler rolls back and raises the
  same exception again.
\<close>

definition s3_to_redshift ::
  "world \<Rightarrow> session \<Rightarrow> event list \<Rightarrow> table_name \<Rightarrow> file_name \<Rightarrow> string \<Rightarrow> string \<Rightarrow> string
   \<Rightarrow> format_name \<Rightarrow> format_name \<Rightarrow> string \<Rightarrow> string \<Rightarrow> (error + unit) \<times> event list" where
  "s3_to_redshift w ss tr redshift_table_name csv_name rs_iam_role delimiter quotechar dateformat
     timeformat region parameters =
     (let s3_to_sql = copy_statement ss redshift_table_name csv_name rs_iam_role delimiter
                        quotechar dateformat timeformat region parameters;
          tr1 = tr @ [Execute s3_to_sql]
      in case w_execute w tr s3_to_sql of
           Some e \<Rightarrow> (Inl e, tr1 @ [Rollback])
         | None \<Rightarrow>
             (case w_commit w tr1 of
                Some e \<Rightarrow> (Inl e, tr1 @ [Commit, Rollback])
              | None \<Rightarrow> (Inr (), tr1 @ [Commit])))"

section \<open>The pipeline\<close>









section \<open>Observations and the specification's reading\<close>



text \<open>
  The type mapping as the specification words it (section 4.1): the rules are stated on
  the kind of the tag, not on its name.
\<close>

definition spec_is_integer :: "dtype \<Rightarrow> bool" where
  "spec_is_integer d = (case d of DInt w \<Rightarrow> True | DUInt w \<Rightarrow> True | _ \<Rightarrow> False)"

definition spec_is_64bit :: "dtype \<Rightarrow> bool" where
  "spec_is_64bit d = (d = DInt W64 \<or> d = DUInt W64)"

definition spec_is_float :: "dtype \<Rightarrow> bool" where
  "spec_is_float d = (case d of DFloat w \<Rightarrow> True | _ \<Rightarrow> False)"

definition spec_mapType :: "dtype \<Rightarrow> string" where
  "spec_mapType d =
     (if spec_is_integer d \<and> spec_is_64bit d then ''BIGINT''
      else if spec_is_integer d then ''INTEGER''
      else if spec_is_float d then ''REAL''
      else if d = DDatetime64 then ''TIMESTAMP''
      else if d = DBool then ''BOOLEAN''
      else ''VARCHAR(MAX)'')"

text \<open>
  The column \<open>invalidate_to_schema\<close> adds to a frame of \<open>k\<close> rows for the schema column
  \<open>c\<close>: the default of its type in every row.
\<close>

definition default_column :: "nat \<Rightarrow> column \<Rightarrow> column" where
  "default_column k c =
     Column (col_name c) (scalar_dtype (get_defaults (col_dtype c)))
       (replicate k (get_defaults (col_dtype c)))"

text \<open>The defaults as the specification words them (section 4.2), by the kind of the type.\<close>

definition spec_default :: "dtype \<Rightarrow> pyval" where
  "spec_default d =
     (if d = DObject then PyStr ''na''
      else if spec_is_integer d then PyInt 0
      else if d = DBool then PyBool False
      else if spec_is_float d then PyFloat 0
      else PyInt 0)"

section \<open>Example inputs\<close>

definition raw_example :: dataframe where
  "raw_example =
     \<lparr>index_name = None, index_dtype = DInt W64, index_vals = [PyInt 0, PyInt 1],
      cols = [Column ''a'' (DInt W64) [PyInt 5, PyInt 7],
              Column ''extra'' DObject [PyStr ''x'', PyStr ''y'']]\<rparr>"

definition schema_example :: dataframe where
  "schema_example =
     \<lparr>index_name = None, index_dtype = DInt W64, index_vals = [PyInt 0],
      cols = [Column ''b'' (DFloat F64) [PyFloat 1],
              Column ''a'' (DInt W64) [PyInt 1],
              Column ''c'' DObject [PyStr ''z'']]\<rparr>"

definition empty_table_schema :: dataframe where
  "empty_table_schema =
     \<lparr>index_name = None, index_dtype = DObject, index_vals = [],
      cols = [Column ''b'' DObject [], Column ''a'' DObject []]\<rparr>"

definition float32_schema :: dataframe where
  "float32_schema =
     \<lparr>index_name = None, index_dtype = DInt W64, index_vals = [PyInt 0],
      cols = [Column ''a'' (DInt W64) [PyInt 1], Column ''f'' (DFloat F32) [PyFloat 1]]\<rparr>"

definition one_column_frame :: dataframe where
  "one_column_frame =
     \<lparr>index_name = None, index_dtype = DInt W64, index_vals = [PyInt 0, PyInt 1],
      cols = [Column ''a'' (DInt W64) [PyInt 5, PyInt 7]]\<rparr>"




definition quiet_world :: world where
  "quiet_world =
     \<lparr>w_today = 738000, w_date_str = (\<lambda>d. ''2021-07-28''), w_to_csv = (\<lambda>df i d. ''a,b''),
      w_execute = (\<lambda>tr q. None), w_fetch = (\<lambda>tr. one_column_frame),
      w_commit = (\<lambda>tr. None), w_put_object = (\<lambda>tr b k body opts. None)\<rparr>"

definition failing_world :: world where
  "failing_world = quiet_world\<lparr>w_execute := (\<lambda>tr q. Some (DatabaseError ''syntax error''))\<rparr>"

definition example_session :: session where
  "example_session =
     \<lparr>s3_bucket_var = ''bucket'', s3_subdirectory_var = ''dir/'', aws_1 = Some ''AKIA'',
      aws_2 = Some ''secret'', aws_role = None, aws_token = []\<rparr>"


section \<open>Type mapping: the rules in order\<close>

lemma pd_dtype_on_dtypes:
  "pd_dtype_to_redshift_dtype (dtype_name d) =
     (case d of DUInt w \<Rightarrow> ''VARCHAR(MAX)'' | _ \<Rightarrow> spec_mapType d)"
proof (cases d)
  case (DInt w)
  then show ?thesis
    by (cases w)
      (simp_all add: pd_dtype_to_redshift_dtype_def startswith_def spec_mapType_def
        spec_is_integer_def spec_is_64bit_def)
next
  case (DUInt w)
  then show ?thesis
    by (cases w) (simp_all add: pd_dtype_to_redshift_dtype_def startswith_def)
next
  case (DFloat w)
  then show ?thesis
    by (cases w)
      (simp_all add: pd_dtype_to_redshift_dtype_def startswith_def spec_mapType_def
        spec_is_integer_def spec_is_64bit_def spec_is_float_def)
qed (simp_all add: pd_dtype_to_redshift_dtype_def startswith_def spec_mapType_def
       spec_is_integer_def spec_is_64bit_def spec_is_float_def)

lemma prefix_int64_int: "prefix ''int64'' t \<Longrightarrow> prefix ''int'' t"
  by (auto simp: prefix_def)

lemma prefix_tags_apart:
  "prefix ''int'' t \<Longrightarrow> \<not> prefix ''float'' t \<and> \<not> prefix ''datetime'' t \<and> t \<noteq> ''bool''"
  "prefix ''float'' t \<Longrightarrow> \<not> prefix ''datetime'' t \<and> t \<noteq> ''bool''"
  "prefix ''datetime'' t \<Longrightarrow> t \<noteq> ''bool''"
  by (auto simp: prefix_def)

text \<open>
  Claim C5, as the specification words it, fails: an unsigned integer tag is an integer tag,
  and \<open>uint32\<close> is mapped to \<open>VARCHAR(MAX)\<close>, not to \<open>INTEGER\<close>.
\<close>

theorem pd_dtype_unsigned_counterexample:
  "pd_dtype_to_redshift_dtype (dtype_name (DUInt W32)) = ''VARCHAR(MAX)''
   \<and> spec_mapType (DUInt W32) = ''INTEGER''"
  by (simp add: pd_dtype_to_redshift_dtype_def startswith_def spec_mapType_def spec_is_integer_def
      spec_is_64bit_def)

text \<open>
  Claim C5, amended: the type mapper returns exactly one of six keywords for every tag, by
  the first rule that matches the tag's name: a name beginning with \<open>int64\<close> gives
  \<open>BIGINT\<close>, any other name beginning with \<open>int\<close> gives \<open>INTEGER\<close>, a name beginning with
  \<open>float\<close> gives \<open>REAL\<close>, one beginning with \<open>datetime\<close> gives \<open>TIMESTAMP\<close>, the name
  \<open>bool\<close> gives \<open>BOOLEAN\<close>, and every other name gives \<open>VARCHAR(MAX)\<close>. On the numpy tags
  this is the specification's table except for the unsigned integers, which are not
  recognised and get \<open>VARCHAR(MAX)\<close>.
\<close>

theorem pd_dtype_to_redshift_dtype_rules:
  "pd_dtype_to_redshift_dtype (dtype_name d) =
     (case d of DUInt w \<Rightarrow> ''VARCHAR(MAX)'' | _ \<Rightarrow> spec_mapType d)
   \<and> pd_dtype_to_redshift_dtype t
       \<in> {''BIGINT'', ''INTEGER'', ''REAL'', ''TIMESTAMP'', ''BOOLEAN'', ''VARCHAR(MAX)''}
   \<and> (pd_dtype_to_redshift_dtype t = ''BIGINT'') = prefix ''int64'' t
   \<and> (pd_dtype_to_redshift_dtype t = ''INTEGER'') = (prefix ''int'' t \<and> \<not> prefix ''int64'' t)
   \<and> (pd_dtype_to_redshift_dtype t = ''REAL'') = prefix ''float'' t
   \<and> (pd_dtype_to_redshift_dtype t = ''TIMESTAMP'') = prefix ''datetime'' t
   \<and> (pd_dtype_to_redshift_dtype t = ''BOOLEAN'') = (t = ''bool'')"
proof -
  have "pd_dtype_to_redshift_dtype t
          \<in> {''BIGINT'', ''INTEGER'', ''REAL'', ''TIMESTAMP'', ''BOOLEAN'', ''VARCHAR(MAX)''}"
    by (simp add: pd_dtype_to_redshift_dtype_def)
  moreover have "(pd_dtype_to_redshift_dtype t = ''BIGINT'') = prefix ''int64'' t"
    by (simp add: pd_dtype_to_redshift_dtype_def startswith_def)
  moreover have
    "(pd_dtype_to_redshift_dtype t = ''INTEGER'') = (prefix ''int'' t \<and> \<not> prefix ''int64'' t)"
    by (simp add: pd_dtype_to_redshift_dtype_def startswith_def)
  moreover have "(pd_dtype_to_redshift_dtype t = ''REAL'') = prefix ''float'' t"
    using prefix_int64_int[of t] prefix_tags_apart[of t]
    by (simp add: pd_dtype_to_redshift_dtype_def startswith_def)
  moreover have "(pd_dtype_to_redshift_dtype t = ''TIMESTAMP'') = prefix ''datetime'' t"
    using prefix_int64_int[of t] prefix_tags_apart[of t]
    by (simp add: pd_dtype_to_redshift_dtype_def startswith_def)
  moreover have "(pd_dtype_to_redshift_dtype t = ''BOOLEAN'') = (t = ''bool'')"
    using prefix_int64_int[of t] prefix_tags_apart[of t]
    by (simp add: pd_dtype_to_redshift_dtype_def startswith_def)
  ultimately show ?thesis
    using pd_dtype_on_dtypes[of d] by blast
qed

theorem pd_dtype_to_redshift_dtype_rules_witness:
  "pd_dtype_to_redshift_dtype (dtype_name (DInt W32)) = ''INTEGER''
   \<and> pd_dtype_to_redshift_dtype (dtype_name (DInt W64)) = ''BIGINT''
   \<and> pd_dtype_to_redshift_dtype (dtype_name (DUInt W64)) = ''VARCHAR(MAX)''
   \<and> pd_dtype_to_redshift_dtype ''interval[int64, right]'' = ''INTEGER''"
proof -
  have "pd_dtype_to_redshift_dtype (dtype_name (DInt W32)) = ''INTEGER''"
    using pd_dtype_to_redshift_dtype_rules[of "DInt W32" "[]"]
    by (simp add: spec_mapType_def spec_is_integer_def spec_is_64bit_def)
  moreover have "pd_dtype_to_redshift_dtype (dtype_name (DInt W64)) = ''BIGINT''"
    using pd_dtype_to_redshift_dtype_rules[of "DInt W64" "[]"]
    by (simp add: spec_mapType_def spec_is_integer_def spec_is_64bit_def)
  moreover have "pd_dtype_to_redshift_dtype (dtype_name (DUInt W64)) = ''VARCHAR(MAX)''"
    using pd_dtype_to_redshift_dtype_rules[of "DUInt W64" "[]"] by simp
  moreover have "pd_dtype_to_redshift_dtype ''interval[int64, right]'' = ''INTEGER''"
    using pd_dtype_to_redshift_dtype_rules[of DBool "''interval[int64, right]''"] by simp
  ultimately show ?thesis by blast
qed

section \<open>Column types of a frame\<close>

lemma get_column_data_types_given:
  "get_column_data_types df index (Some js) =
     Inr ((if index then [pd_dtype_to_redshift_dtype (dtype_name (index_dtype df))] else [])
          @ map (\<lambda>c. if col_name c \<in> set js then ''SUPER''
                      else pd_dtype_to_redshift_dtype (dtype_name (col_dtype c)))
              (cols df))"
  by (simp add: get_column_data_types_def)

text \<open>
  Claim C2: with no structured-columns set (\<open>json_columns\<close> left at its default \<open>None\<close>)
  and a frame that has a column, \<open>get_column_data_types\<close> raises a \<open>TypeError\<close> instead of
  returning one keyword per column.
\<close>

theorem get_column_data_types_none_raises:
  "get_column_data_types one_column_frame False None
     = Inl (TypeError (''argument of type '' @ sq @ ''NoneType'' @ sq @ '' is not iterable''))"
  by (simp add: get_column_data_types_def one_column_frame_def)

section \<open>The create statement\<close>

lemma create_table_query_distribution:
  assumes "(case column_data_types of
              None \<Rightarrow> get_column_data_types df index json_columns
            | Some given \<Rightarrow> Inr given) = Inr types"
  shows "\<exists>query. \<forall>diststyle distkey.
     (distkey \<noteq> [] \<longrightarrow>
        create_table_query df name column_data_types index diststyle distkey si sortkey
          json_columns
          = Inr (query @ '' distkey('' @ distkey @ '')'' @ sort_clause si sortkey))
   \<and> (distkey = [] \<and> diststyle \<in> {''even'', ''all''} \<longrightarrow>
        create_table_query df name column_data_types index diststyle distkey si sortkey
          json_columns
          = Inr (query @ '' diststyle '' @ diststyle @ sort_clause si sortkey))
   \<and> (distkey = [] \<and> diststyle \<notin> {''even'', ''all''} \<longrightarrow>
        create_table_query df name column_data_types index diststyle distkey si sortkey
          json_columns
          = Inl (ValueError (''diststyle must be either '' @ sq @ ''even'' @ sq
                               @ '' or '' @ sq @ ''all'' @ sq)))"
proof -
  let ?cols = "if index
             then (if truthy (index_name df) then the (index_name df) else ''index'')
                  # columns df
             else columns df"
  let ?q = "''create table '' @ name @ '' (''
              @ join '', '' (map2 (\<lambda>x y. x @ '' '' @ y) ?cols types) @ '')''"
  show ?thesis
    by (rule exI[of _ ?q]) (use assms in \<open>simp add: create_table_query_def Let_def\<close>)
qed

text \<open>
  Claim C7: with the defaults for \<open>column_data_types\<close> and \<open>json_columns\<close>, the column types
  are computed first and that raises the \<open>TypeError\<close> of claim C2: an invalid \<open>diststyle\<close>
  is never reported, and with a valid one, or with a distribution key, no statement and no
  distribution clause is produced and nothing is sent to the warehouse.
\<close>

theorem create_redshift_table_defaults_raise:
  "create_table_query one_column_frame ''t'' None False ''foo'' [] False [] None
     = Inl (TypeError (''argument of type '' @ sq @ ''NoneType'' @ sq @ '' is not iterable''))
   \<and> create_table_query one_column_frame ''t'' None False ''even'' [] False [] None
     = Inl (TypeError (''argument of type '' @ sq @ ''NoneType'' @ sq @ '' is not iterable''))
   \<and> create_redshift_table quiet_world [] one_column_frame ''t'' None False ''even'' ''a'' False
       [] None
     = (Inl (TypeError (''argument of type '' @ sq @ ''NoneType'' @ sq @ '' is not iterable'')),
        [])"
  by (simp add: create_redshift_table_def create_table_query_def get_column_data_types_def
      one_column_frame_def)

section \<open>The copy statement fails\<close>

text \<open>
  Claim C6: when the execution of the bulk-copy statement fails, \<open>s3_to_redshift\<close> raises
  that same error again, and the calls it has made on the connection are the \<open>execute\<close> of
  the statement and one \<open>rollback\<close>: no \<open>commit\<close>.
\<close>

theorem s3_to_redshift_rollback:
  assumes "w_execute w tr
             (copy_statement ss name csv_name role delimiter quotechar dateformat timeformat
                region parameters) = Some e"
  shows "s3_to_redshift w ss tr name csv_name role delimiter quotechar dateformat timeformat
           region parameters
         = (Inl e,
            tr @ [Execute (copy_statement ss name csv_name role delimiter quotechar dateformat
                             timeformat region parameters),
                  Rollback])
       \<and> Commit \<notin> set (drop (length tr)
            (snd (s3_to_redshift w ss tr name csv_name role delimiter quotechar dateformat
                    timeformat region parameters)))"
  using assms by (simp add: s3_to_redshift_def)

theorem s3_to_redshift_rollback_witness:
  "w_execute failing_world []
     (copy_statement example_session ''t'' ''t.csv'' [] '','' dq ''auto'' ''auto'' [] [])
     = Some (DatabaseError ''syntax error'')
   \<and> s3_to_redshift failing_world example_session [] ''t'' ''t.csv'' [] '','' dq ''auto''
       ''auto'' [] []
     = (Inl (DatabaseError ''syntax error''),
        [Execute (copy_statement example_session ''t'' ''t.csv'' [] '','' dq ''auto'' ''auto''
                    [] []),
         Rollback])"
proof -
  have h: "w_execute failing_world []
     (copy_statement example_session ''t'' ''t.csv'' [] '','' dq ''auto'' ''auto'' [] [])
     = Some (DatabaseError ''syntax error'')"
    by (simp add: failing_world_def quiet_world_def)
  from s3_to_redshift_rollback[OF h] h show ?thesis by simp
qed

section \<open>Column name validation\<close>



























section \<open>Window boundaries\<close>

lemma find_from_sublist: "(find_from i sub s \<noteq> - 1) = sublist sub s"
proof (induction s arbitrary: i)
  case Nil
  then show ?case by auto
next
  case (Cons c cs)
  show ?case
  proof (cases "prefix sub (c # cs)")
    case True
    then show ?thesis by (auto intro: prefix_imp_sublist)
  next
    case False
    then have "sub \<noteq> []" by auto
    then obtain x xs where sub: "sub = x # xs" by (cases sub) auto
    have "sublist sub (c # cs) \<longleftrightarrow> sublist sub cs"
      using False unfolding sub by (auto simp add: sublist_Cons_right)
    with False Cons.IH[of "Suc i"] show ?thesis by simp
  qed
qed

lemma py_find_in: "(py_find s sub \<noteq> - 1) = py_in sub s"
  by (simp add: py_find_def py_in_def find_from_sublist)

lemma prefix_shorter:
  assumes "prefix sub (xs @ ys)" and "length sub \<le> length xs"
  shows "prefix sub xs"
proof -
  from assms(1) obtain zs where "xs @ ys = sub @ zs" by (auto simp: prefix_def)
  then have "take (length sub) (xs @ ys) = sub" by simp
  with assms(2) have "take (length sub) xs = sub" by simp
  then show ?thesis by (metis take_is_prefix)
qed

lemma find_from_first:
  "\<not> sublist sub (pre @ butlast sub) \<Longrightarrow> sub \<noteq> [] \<Longrightarrow>
   find_from i sub (pre @ sub @ post) = int (i + length pre)"
proof (induction pre arbitrary: i)
  case Nil
  then show ?case by (cases sub) auto
next
  case (Cons c pre)
  from Cons.prems(2) obtain b l where sub: "sub = b @ [l]"
    by (cases sub rule: rev_cases) auto
  have np: "\<not> prefix sub ((c # pre) @ sub @ post)"
  proof
    assume "prefix sub ((c # pre) @ sub @ post)"
    then have "prefix sub (((c # pre) @ b) @ ([l] @ post))"
      by (simp add: sub)
    then have "prefix sub ((c # pre) @ b)"
      by (rule prefix_shorter) (simp add: sub)
    then have "sublist sub ((c # pre) @ butlast sub)"
      by (simp add: sub prefix_imp_sublist)
    with Cons.prems(1) show False by simp
  qed
  have "\<not> sublist sub (pre @ butlast sub)"
    using Cons.prems(1) by (auto simp: sublist_Cons_right)
  from Cons.IH[OF this Cons.prems(2), of "Suc i"] np show ?case by simp
qed

text \<open>
  The input the docstring expects: one run of digits between the first \<open>interval\<close> and the
  last character. Then the day count is that run.
\<close>

lemma date_converter_single_run:
  assumes cd: "sublist ''current_date'' ts" and day: "sublist ''day'' ts"
    and shape: "ts = pre @ ''interval'' @ a @ ds @ b @ [c]"
    and first: "\<not> sublist ''interval'' (pre @ ''interva'')"
    and ds: "ds \<noteq> []" "\<forall>x \<in> set ds. isdigit x"
    and rest: "\<forall>x \<in> set (a @ b). \<not> isdigit x"
  shows "date_converter today ts = date_minus_days today (decimal ds)"
proof -
  have idx: "py_find ts ''interval'' = int (length pre)"
    unfolding py_find_def shape
    using find_from_first[of "''interval''" pre 0 "a @ ds @ b @ [c]"] first by simp
  have "sublist ''interval'' ts"
    unfolding shape by (metis sublist_appendI)
  then have iv: "py_find ts ''interval'' \<noteq> - 1"
    by (simp add: py_find_in py_in_def)
  have dy: "py_find ts ''day'' \<noteq> - 1"
    using day by (simp add: py_find_in py_in_def)
  have "butlast ts = pre @ ''interval'' @ a @ ds @ b"
    unfolding shape by (simp add: butlast_append)
  then have sl: "slice_to_last ts (nat (py_find ts ''interval'')) = ''interval'' @ a @ ds @ b"
    by (simp add: slice_to_last_def idx)
  have "filter isdigit (''interval'' @ a @ ds @ b) = ds"
    using ds(2) rest by (simp add: isdigit_def)
  with sl have "py_int (filter isdigit (slice_to_last ts (nat (py_find ts ''interval''))))
                  = Inr (decimal ds)"
    using ds(1) by (simp add: py_int_def)
  with cd iv dy show ?thesis
    by (simp add: date_converter_def py_in_def Let_def)
qed




section \<open>Options forwarded to the object store\<close>













section \<open>Schema reconciliation\<close>

lemma get_defaults_cases:
  "get_defaults t =
     (case t of
        DObject \<Rightarrow> PyStr ''na''
      | DBool \<Rightarrow> PyBool False
      | DFloat F64 \<Rightarrow> PyFloat 0
      | _ \<Rightarrow> PyInt 0)"
proof (cases t)
  case (DInt w)
  then show ?thesis by (cases w) (simp_all add: get_defaults_def dtype_eq_def np_dtype_def)
next
  case (DUInt w)
  then show ?thesis by (cases w) (simp_all add: get_defaults_def dtype_eq_def np_dtype_def)
next
  case (DFloat w)
  then show ?thesis by (cases w) (simp_all add: get_defaults_def dtype_eq_def np_dtype_def)
qed (simp_all add: get_defaults_def dtype_eq_def np_dtype_def)

lemma drop_columns_not_in_schema:
  "drop_columns raw (filter (\<lambda>n. n \<notin> S) (columns raw))
     = Inr (raw\<lparr>cols := filter (\<lambda>c. col_name c \<in> S) (cols raw)\<rparr>)"
proof -
  have "find (\<lambda>l. l \<notin> set (columns raw)) (filter (\<lambda>n. n \<notin> S) (columns raw)) = None"
    by (simp add: find_None_iff)
  moreover have "filter (\<lambda>c. col_name c \<notin> set (filter (\<lambda>n. n \<notin> S) (columns raw))) (cols raw)
                   = filter (\<lambda>c. col_name c \<in> S) (cols raw)"
    by (rule filter_cong) (auto simp: columns_def)
  ultimately show ?thesis by (simp add: drop_columns_def)
qed

lemma filter_name_distinct:
  "distinct (map col_name cs) \<Longrightarrow> c \<in> set cs \<Longrightarrow>
   filter (\<lambda>x. col_name x = col_name c) cs = [c]"
proof (induction cs)
  case Nil
  then show ?case by simp
next
  case (Cons a cs)
  show ?case
  proof (cases "a = c")
    case True
    with Cons.prems(1) have "col_name c \<notin> col_name ` set cs" by simp
    then have "filter (\<lambda>x. col_name x = col_name c) cs = []"
      unfolding filter_empty_conv by (metis imageI)
    with True show ?thesis by simp
  next
    case False
    with Cons.prems have "c \<in> set cs" and "col_name a \<noteq> col_name c"
      by auto
    with Cons.IH Cons.prems(1) show ?thesis by simp
  qed
qed

lemma getitem_dtype_distinct:
  "distinct (columns schema) \<Longrightarrow> c \<in> set (cols schema) \<Longrightarrow>
   getitem_dtype schema (col_name c) = Inr (col_dtype c)"
  by (simp add: getitem_dtype_def columns_def filter_name_distinct)

lemma add_missing_cols:
  assumes "distinct (columns schema)" and "set cs \<subseteq> set (cols schema)"
    and "distinct (map col_name cs)"
  shows "add_missing schema (map col_name cs) df =
     Inr (df\<lparr>cols := cols df
            @ map (default_column (length (index_vals df)))
                (filter (\<lambda>c. col_name c \<notin> set (columns df)) cs)\<rparr>)"
  using assms(2,3)
proof (induction cs arbitrary: df)
  case Nil
  then show ?case by simp
next
  case (Cons c cs)
  from Cons.prems have sub: "set cs \<subseteq> set (cols schema)" and dis: "distinct (map col_name cs)"
    and c: "c \<in> set (cols schema)" and fresh: "col_name c \<notin> set (map col_name cs)"
    by auto
  show ?case
  proof (cases "col_name c \<in> set (columns df)")
    case True
    with Cons.IH[OF sub dis, of df] show ?thesis by simp
  next
    case False
    let ?df1 = "df\<lparr>cols := cols df @ [default_column (length (index_vals df)) c]\<rparr>"
    have s: "setitem_scalar df (col_name c) (get_defaults (col_dtype c)) = ?df1"
      using False by (simp add: setitem_scalar_def default_column_def)
    have "\<And>x. x \<in> set cs \<Longrightarrow> col_name x \<noteq> col_name c"
      using fresh by (metis imageI set_map)
    then have f: "filter (\<lambda>c'. col_name c' \<notin> set (columns ?df1)) cs
               = filter (\<lambda>c'. col_name c' \<notin> set (columns df)) cs"
      by (intro filter_cong) (simp_all add: columns_def default_column_def)
    have "add_missing schema (map col_name (c # cs)) df
            = add_missing schema (map col_name cs) ?df1"
      using False getitem_dtype_distinct[OF assms(1) c] s by simp
    also have "\<dots> = Inr (?df1\<lparr>cols := cols ?df1
            @ map (default_column (length (index_vals ?df1)))
                (filter (\<lambda>c. col_name c \<notin> set (columns ?df1)) cs)\<rparr>)"
      by (rule Cons.IH[OF sub dis])
    finally show ?thesis using False by (simp add: f)
  qed
qed

lemma names_concat_select:
  "distinct (map col_name cs) \<Longrightarrow> set labels \<subseteq> set (map col_name cs) \<Longrightarrow>
   map col_name (concat (map (\<lambda>l. filter (\<lambda>c. col_name c = l) cs) labels)) = labels"
proof (induction labels)
  case Nil
  then show ?case by simp
next
  case (Cons l labels)
  from Cons.prems(2) obtain c where c: "c \<in> set cs" "col_name c = l" by auto
  from filter_name_distinct[OF Cons.prems(1) c(1)] c(2)
  have "filter (\<lambda>x. col_name x = l) cs = [c]" by simp
  with Cons c(2) show ?case by simp
qed

lemma filter_concat_select:
  "distinct labels \<Longrightarrow> n \<in> set labels \<Longrightarrow>
   filter (\<lambda>x. col_name x = n) (concat (map (\<lambda>l. filter (\<lambda>c. col_name c = l) cs) labels))
     = filter (\<lambda>c. col_name c = n) cs"
proof (induction labels)
  case Nil
  then show ?case by simp
next
  case (Cons l labels)
  show ?case
  proof (cases "l = n")
    case True
    with Cons.prems(1) have "n \<notin> set labels" by simp
    then have "filter (\<lambda>x. col_name x = n)
                 (concat (map (\<lambda>l. filter (\<lambda>c. col_name c = l) cs) labels)) = []"
      by (auto simp: filter_empty_conv)
    moreover have "filter (\<lambda>x. col_name x = n) (filter (\<lambda>c. col_name c = n) cs)
                     = filter (\<lambda>c. col_name c = n) cs"
      by simp
    ultimately show ?thesis using True by simp
  next
    case False
    with Cons.prems have n: "n \<in> set labels" and d: "distinct labels" by auto
    have "filter (\<lambda>x. col_name x = n) (filter (\<lambda>c. col_name c = l) cs) = []"
      using False by (auto simp: filter_empty_conv)
    with Cons.IH[OF d n] show ?thesis by simp
  qed
qed

text \<open>What \<open>invalidate_to_schema\<close> returns for a schema that has a row and distinct names.\<close>

lemma invalidate_unfold:
  assumes rows: "index_vals schema \<noteq> []" and ds: "distinct (columns schema)"
  shows "invalidate_to_schema raw (Some schema) =
     Inr (raw\<lparr>cols := concat (map (\<lambda>l. filter (\<lambda>c. col_name c = l)
            (filter (\<lambda>c. col_name c \<in> set (columns schema)) (cols raw)
             @ map (default_column (length (index_vals raw)))
                 (filter (\<lambda>c. col_name c \<notin> set (columns raw)) (cols schema))))
          (columns schema))\<rparr>)"
proof -
  let ?S = "set (columns schema)"
  let ?raw1 = "raw\<lparr>cols := filter (\<lambda>c. col_name c \<in> ?S) (cols raw)\<rparr>"
  let ?new = "map (default_column (length (index_vals raw)))
                (filter (\<lambda>c. col_name c \<notin> set (columns raw)) (cols schema))"
  let ?raw2 = "raw\<lparr>cols := filter (\<lambda>c. col_name c \<in> ?S) (cols raw) @ ?new\<rparr>"
  have d: "drop_columns raw (filter (\<lambda>n. n \<notin> ?S) (columns raw)) = Inr ?raw1"
    by (rule drop_columns_not_in_schema)
  have "\<And>x. x \<in> set (cols schema) \<Longrightarrow>
          (col_name x \<in> set (columns ?raw1)) = (col_name x \<in> set (columns raw))"
  proof -
    fix x assume x: "x \<in> set (cols schema)"
    then have "col_name x \<in> ?S" by (simp add: columns_def)
    then show "(col_name x \<in> set (columns ?raw1)) = (col_name x \<in> set (columns raw))"
      unfolding columns_def by (simp del: set_map) (force simp: image_iff)
  qed
  then have f: "filter (\<lambda>c. col_name c \<notin> set (columns ?raw1)) (cols schema)
             = filter (\<lambda>c. col_name c \<notin> set (columns raw)) (cols schema)"
    by (intro filter_cong) simp_all
  have "add_missing schema (map col_name (cols schema)) ?raw1 =
          Inr (?raw1\<lparr>cols := cols ?raw1
            @ map (default_column (length (index_vals ?raw1)))
                (filter (\<lambda>c. col_name c \<notin> set (columns ?raw1)) (cols schema))\<rparr>)"
    by (rule add_missing_cols[OF ds]) (use ds in \<open>simp_all add: columns_def\<close>)
  then have a: "add_missing schema (columns schema) ?raw1 = Inr ?raw2"
    unfolding f by (simp add: columns_def)
  have cn: "columns ?raw2 =
      map col_name (filter (\<lambda>c. col_name c \<in> ?S) (cols raw))
      @ map col_name (filter (\<lambda>c. col_name c \<notin> set (columns raw)) (cols schema))"
    by (simp add: columns_def default_column_def comp_def)
  have "\<forall>l \<in> ?S. l \<in> set (columns ?raw2)"
  proof
    fix l assume "l \<in> ?S"
    then obtain c where c: "c \<in> set (cols schema)" "col_name c = l"
      by (auto simp: columns_def)
    show "l \<in> set (columns ?raw2)"
    proof (cases "l \<in> set (columns raw)")
      case True
      then obtain x where x: "x \<in> set (cols raw)" "col_name x = l"
        by (auto simp: columns_def)
      with \<open>l \<in> ?S\<close> have "x \<in> set (filter (\<lambda>c. col_name c \<in> ?S) (cols raw))"
        by simp
      then have "col_name x \<in> col_name ` set (filter (\<lambda>c. col_name c \<in> ?S) (cols raw))"
        by (rule imageI)
      then have "col_name x \<in> set (map col_name (filter (\<lambda>c. col_name c \<in> ?S) (cols raw)))"
        by (simp only: set_map)
      then have "col_name x \<in> set (columns ?raw2)"
        unfolding cn set_append Un_iff by (rule disjI1)
      with x(2) show ?thesis by simp
    next
      case False
      with c have "c \<in> set (filter (\<lambda>c. col_name c \<notin> set (columns raw)) (cols schema))"
        by simp
      then have "col_name c
          \<in> col_name ` set (filter (\<lambda>c. col_name c \<notin> set (columns raw)) (cols schema))"
        by (rule imageI)
      then have "col_name c
          \<in> set (map col_name (filter (\<lambda>c. col_name c \<notin> set (columns raw)) (cols schema)))"
        by (simp only: set_map)
      then have "col_name c \<in> set (columns ?raw2)"
        unfolding cn set_append Un_iff by (rule disjI2)
      with c(2) show ?thesis by simp
    qed
  qed
  then have k: "find (\<lambda>l. l \<notin> set (columns ?raw2)) (columns schema) = None"
    by (simp add: find_None_iff)
  have g: "getitem_list ?raw2 (columns schema) =
     Inr (?raw2\<lparr>cols := concat (map (\<lambda>l. filter (\<lambda>c. col_name c = l) (cols ?raw2))
                                    (columns schema))\<rparr>)"
    unfolding getitem_list_def k by simp
  show ?thesis
    unfolding invalidate_to_schema_def Let_def using rows
    by (simp only: option.case d a g sum.case) simp
qed

lemma filter_name_default_columns:
  "filter (\<lambda>x. col_name x = n) (map (default_column k) cs)
     = map (default_column k) (filter (\<lambda>x. col_name x = n) cs)"
  by (induction cs) (simp_all add: default_column_def)

lemma set_concat_select:
  "set (concat (map (\<lambda>l. filter (\<lambda>c. col_name c = l) cs) labels))
     = {c \<in> set cs. col_name c \<in> set labels}"
  by (induction labels) auto

lemma invalidate_no_rows:
  "index_vals schema = [] \<Longrightarrow> invalidate_to_schema raw (Some schema) = Inr raw"
  by (simp add: invalidate_to_schema_def)

lemma invalidate_shape:
  assumes rows: "index_vals schema \<noteq> []" and dr: "distinct (columns raw)"
    and ds: "distinct (columns schema)"
  shows "\<exists>r. invalidate_to_schema raw (Some schema) = Inr r
     \<and> columns r = columns schema
     \<and> index_vals r = index_vals raw
     \<and> index_name r = index_name raw
     \<and> index_dtype r = index_dtype raw
     \<and> (\<forall>c \<in> set (cols r). col_name c \<in> set (columns raw) \<longrightarrow> c \<in> set (cols raw))
     \<and> (\<forall>c \<in> set (cols raw). col_name c \<in> set (columns schema) \<longrightarrow> c \<in> set (cols r))
     \<and> ((\<forall>c \<in> set (cols raw). length (col_values c) = length (index_vals raw)) \<longrightarrow>
          (\<forall>c \<in> set (cols r). length (col_values c) = length (index_vals raw)))"
proof -
  let ?S = "set (columns schema)"
  let ?A = "filter (\<lambda>c. col_name c \<in> ?S) (cols raw)"
  let ?M = "filter (\<lambda>c. col_name c \<notin> set (columns raw)) (cols schema)"
  let ?N = "map (default_column (length (index_vals raw))) ?M"
  let ?R2 = "?A @ ?N"
  let ?r = "raw\<lparr>cols := concat (map (\<lambda>l. filter (\<lambda>c. col_name c = l) ?R2) (columns schema))\<rparr>"
  have u: "invalidate_to_schema raw (Some schema) = Inr ?r"
    by (rule invalidate_unfold[OF rows ds])
  have nN: "map col_name ?N = map col_name ?M"
    by (simp add: default_column_def comp_def)
  have dA: "distinct (map col_name ?A)"
    using dr unfolding columns_def by (rule distinct_map_filter)
  have dM: "distinct (map col_name ?M)"
    using ds unfolding columns_def by (rule distinct_map_filter)
  have sA: "set (map col_name ?A) \<subseteq> set (columns raw)"
    by (auto simp: columns_def)
  have sM: "set (map col_name ?M) \<inter> set (columns raw) = {}"
    by auto
  have dR: "distinct (map col_name ?R2)"
    using dA dM sA sM by (simp only: map_append distinct_append nN) blast
  have cov: "?S \<subseteq> set (map col_name ?R2)"
  proof
    fix l assume l: "l \<in> ?S"
    then obtain c where c: "c \<in> set (cols schema)" "col_name c = l"
      by (auto simp: columns_def)
    show "l \<in> set (map col_name ?R2)"
    proof (cases "l \<in> set (columns raw)")
      case True
      then obtain x where x: "x \<in> set (cols raw)" "col_name x = l"
        by (auto simp: columns_def)
      with l have "x \<in> set ?A" by simp
      then have "col_name x \<in> col_name ` set ?A" by (rule imageI)
      then have "col_name x \<in> set (map col_name ?A)" by (simp only: set_map)
      then have "col_name x \<in> set (map col_name ?R2)"
        unfolding map_append set_append Un_iff by (rule disjI1)
      with x(2) show ?thesis by simp
    next
      case False
      with c have "c \<in> set ?M" by simp
      then have "col_name c \<in> col_name ` set ?M" by (rule imageI)
      then have "col_name c \<in> set (map col_name ?N)" by (simp only: set_map nN)
      then have "col_name c \<in> set (map col_name ?R2)"
        unfolding map_append set_append Un_iff by (rule disjI2)
      with c(2) show ?thesis by simp
    qed
  qed
  have names: "columns ?r = columns schema"
    using names_concat_select[OF dR cov] by (simp add: columns_def)
  have cr: "cols ?r = concat (map (\<lambda>l. filter (\<lambda>c. col_name c = l) ?R2) (columns schema))"
    by simp
  have members: "set (cols ?r) = {c \<in> set ?R2. col_name c \<in> ?S}"
    unfolding cr by (rule set_concat_select)
  have came: "\<forall>c \<in> set (cols ?r). col_name c \<in> set (columns raw) \<longrightarrow> c \<in> set (cols raw)"
  proof (intro ballI impI)
    fix c assume c: "c \<in> set (cols ?r)" and n: "col_name c \<in> set (columns raw)"
    from c members have "c \<in> set ?R2" by blast
    then have "c \<in> set ?A \<or> c \<in> set ?N" by simp
    moreover have "c \<notin> set ?N"
    proof
      assume "c \<in> set ?N"
      then have "col_name c \<in> col_name ` set ?N" by (rule imageI)
      then have "col_name c \<in> set (map col_name ?M)" by (simp only: set_map nN[symmetric])
      with sM n show False by blast
    qed
    ultimately show "c \<in> set (cols raw)" by simp
  qed
  have keep: "\<forall>c \<in> set (cols raw). col_name c \<in> ?S \<longrightarrow> c \<in> set (cols ?r)"
  proof (intro ballI impI)
    fix c assume "c \<in> set (cols raw)" and "col_name c \<in> ?S"
    then have "c \<in> set ?R2 \<and> col_name c \<in> ?S" by simp
    with members show "c \<in> set (cols ?r)" by blast
  qed
  have len: "(\<forall>c \<in> set (cols raw). length (col_values c) = length (index_vals raw)) \<longrightarrow>
          (\<forall>c \<in> set (cols ?r). length (col_values c) = length (index_vals raw))"
  proof (intro ballI impI)
    fix c
    assume wf: "\<forall>c \<in> set (cols raw). length (col_values c) = length (index_vals raw)"
      and c: "c \<in> set (cols ?r)"
    from c members have "c \<in> set ?A \<or> c \<in> set ?N" by auto
    then show "length (col_values c) = length (index_vals raw)"
    proof
      assume "c \<in> set ?A"
      with wf show ?thesis by simp
    next
      assume "c \<in> set ?N"
      then show ?thesis by (auto simp: default_column_def)
    qed
  qed
  have idx: "index_vals ?r = index_vals raw \<and> index_name ?r = index_name raw
             \<and> index_dtype ?r = index_dtype raw"
    by simp
  from u names idx came keep len show ?thesis by blast
qed

lemma invalidate_default_fill:
  assumes rows: "index_vals schema \<noteq> []" and ds: "distinct (columns schema)"
    and c: "c \<in> set (cols schema)" and absent: "col_name c \<notin> set (columns raw)"
  shows "\<exists>r. invalidate_to_schema raw (Some schema) = Inr r
     \<and> filter (\<lambda>x. col_name x = col_name c) (cols r)
         = [default_column (length (index_vals raw)) c]"
proof -
  let ?S = "set (columns schema)"
  let ?A = "filter (\<lambda>c. col_name c \<in> ?S) (cols raw)"
  let ?M = "filter (\<lambda>c. col_name c \<notin> set (columns raw)) (cols schema)"
  let ?N = "map (default_column (length (index_vals raw))) ?M"
  let ?R2 = "?A @ ?N"
  let ?r = "raw\<lparr>cols := concat (map (\<lambda>l. filter (\<lambda>c. col_name c = l) ?R2) (columns schema))\<rparr>"
  have u: "invalidate_to_schema raw (Some schema) = Inr ?r"
    by (rule invalidate_unfold[OF rows ds])
  have cS: "col_name c \<in> ?S"
    using c by (simp add: columns_def)
  have fresh: "\<forall>x \<in> set (cols raw). col_name x \<noteq> col_name c"
    using absent unfolding columns_def by (metis imageI set_map)
  have "filter (\<lambda>x. col_name x = col_name c) (cols ?r)
          = filter (\<lambda>x. col_name x = col_name c) ?R2"
    using filter_concat_select[OF ds cS, of ?R2] by simp
  also have "\<dots> = filter (\<lambda>x. col_name x = col_name c) ?A
                   @ filter (\<lambda>x. col_name x = col_name c) ?N"
    by simp
  also have "filter (\<lambda>x. col_name x = col_name c) ?A = []"
    using fresh by (simp add: filter_empty_conv)
  also have "filter (\<lambda>x. col_name x = col_name c) ?N
               = map (default_column (length (index_vals raw)))
                   (filter (\<lambda>x. col_name x = col_name c) ?M)"
    by (rule filter_name_default_columns)
  also have "filter (\<lambda>x. col_name x = col_name c) ?M
               = filter (\<lambda>c. col_name c \<notin> set (columns raw))
                   (filter (\<lambda>x. col_name x = col_name c) (cols schema))"
    by (simp add: conj_commute)
  also have "filter (\<lambda>x. col_name x = col_name c) (cols schema) = [c]"
    using ds c unfolding columns_def by (rule filter_name_distinct)
  finally have "filter (\<lambda>x. col_name x = col_name c) (cols ?r)
                  = [default_column (length (index_vals raw)) c]"
    using absent by simp
  with u show ?thesis by blast
qed

lemma invalidate_raw_example:
  "invalidate_to_schema raw_example (Some schema_example) =
     Inr (raw_example\<lparr>cols := [Column ''b'' (DFloat F64) [PyFloat 0, PyFloat 0],
                                Column ''a'' (DInt W64) [PyInt 5, PyInt 7],
                                Column ''c'' DObject [PyStr ''na'', PyStr ''na'']]\<rparr>)"
  by (simp add: invalidate_to_schema_def raw_example_def schema_example_def columns_def
      drop_columns_def getitem_dtype_def setitem_scalar_def getitem_list_def get_defaults_def
      dtype_eq_def np_dtype_def Let_def)

lemmas frame_eval =
  invalidate_to_schema_def columns_def drop_columns_def getitem_dtype_def setitem_scalar_def
  getitem_list_def get_defaults_def dtype_eq_def np_dtype_def Let_def

text \<open>
  Claim C1, with the specification's reading of an empty schema (one that has no columns),
  fails: the schema fetched from an existing table without rows has columns, and the code
  returns the incoming frame as it is.
\<close>

theorem invalidate_empty_table_counterexample:
  "invalidate_to_schema raw_example (Some empty_table_schema) = Inr raw_example
   \<and> columns raw_example = [''a'', ''extra'']
   \<and> columns empty_table_schema = [''b'', ''a'']"
  by (simp add: invalidate_to_schema_def raw_example_def empty_table_schema_def columns_def)

text \<open>
  Claim C1, amended: a reference schema without rows leaves the incoming dataset unchanged,
  whatever its columns. For an incoming dataset with distinct column names and a reference
  schema with at least one row and distinct column names, reconciliation returns a dataset
  whose column names, in order, are the reference schema's; the index, and so the row
  count, is unchanged; every column of the result that bears a name of the incoming
  dataset is that dataset's column, unchanged; every incoming column named in the schema
  is in the result; and all columns have one value per row if the incoming ones had.
\<close>

theorem invalidate_to_schema_shape:
  "(index_vals schema = [] \<longrightarrow> invalidate_to_schema raw (Some schema) = Inr raw)
   \<and> (index_vals schema \<noteq> [] \<and> distinct (columns raw) \<and> distinct (columns schema) \<longrightarrow>
        (\<exists>r. invalidate_to_schema raw (Some schema) = Inr r
           \<and> columns r = columns schema
           \<and> index_vals r = index_vals raw
           \<and> index_name r = index_name raw
           \<and> index_dtype r = index_dtype raw
           \<and> (\<forall>c \<in> set (cols r). col_name c \<in> set (columns raw) \<longrightarrow> c \<in> set (cols raw))
           \<and> (\<forall>c \<in> set (cols raw). col_name c \<in> set (columns schema) \<longrightarrow> c \<in> set (cols r))
           \<and> ((\<forall>c \<in> set (cols raw). length (col_values c) = length (index_vals raw)) \<longrightarrow>
                (\<forall>c \<in> set (cols r). length (col_values c) = length (index_vals raw)))))"
proof (intro conjI impI)
  assume "index_vals schema = []"
  then show "invalidate_to_schema raw (Some schema) = Inr raw"
    by (rule invalidate_no_rows)
next
  assume a: "index_vals schema \<noteq> [] \<and> distinct (columns raw) \<and> distinct (columns schema)"
  show "\<exists>r. invalidate_to_schema raw (Some schema) = Inr r
           \<and> columns r = columns schema
           \<and> index_vals r = index_vals raw
           \<and> index_name r = index_name raw
           \<and> index_dtype r = index_dtype raw
           \<and> (\<forall>c \<in> set (cols r). col_name c \<in> set (columns raw) \<longrightarrow> c \<in> set (cols raw))
           \<and> (\<forall>c \<in> set (cols raw). col_name c \<in> set (columns schema) \<longrightarrow> c \<in> set (cols r))
           \<and> ((\<forall>c \<in> set (cols raw). length (col_values c) = length (index_vals raw)) \<longrightarrow>
                (\<forall>c \<in> set (cols r). length (col_values c) = length (index_vals raw)))"
    by (rule invalidate_shape) (use a in simp_all)
qed

theorem invalidate_to_schema_shape_witness:
  "index_vals schema_example \<noteq> []
   \<and> distinct (columns raw_example)
   \<and> distinct (columns schema_example)
   \<and> invalidate_to_schema raw_example (Some schema_example) =
       Inr (raw_example\<lparr>cols := [Column ''b'' (DFloat F64) [PyFloat 0, PyFloat 0],
                                  Column ''a'' (DInt W64) [PyInt 5, PyInt 7],
                                  Column ''c'' DObject [PyStr ''na'', PyStr ''na'']]\<rparr>)
   \<and> columns (raw_example\<lparr>cols := [Column ''b'' (DFloat F64) [PyFloat 0, PyFloat 0],
                                  Column ''a'' (DInt W64) [PyInt 5, PyInt 7],
                                  Column ''c'' DObject [PyStr ''na'', PyStr ''na'']]\<rparr>)
       = columns schema_example
   \<and> index_vals empty_table_schema = []
   \<and> invalidate_to_schema raw_example (Some empty_table_schema) = Inr raw_example"
proof -
  let ?x = "raw_example\<lparr>cols := [Column ''b'' (DFloat F64) [PyFloat 0, PyFloat 0],
                                  Column ''a'' (DInt W64) [PyInt 5, PyInt 7],
                                  Column ''c'' DObject [PyStr ''na'', PyStr ''na'']]\<rparr>"
  have h1: "index_vals schema_example \<noteq> []"
    by (simp add: schema_example_def)
  have h2: "distinct (columns raw_example)"
    by (simp add: raw_example_def columns_def)
  have h3: "distinct (columns schema_example)"
    by (simp add: schema_example_def columns_def)
  have e: "invalidate_to_schema raw_example (Some schema_example) = Inr ?x"
    by (rule invalidate_raw_example)
  from invalidate_to_schema_shape[of schema_example raw_example] h1 h2 h3
  obtain r where r: "invalidate_to_schema raw_example (Some schema_example) = Inr r"
    and c: "columns r = columns schema_example"
    by blast
  from r e have "r = ?x" by simp
  with c have k: "columns ?x = columns schema_example" by simp
  have z: "index_vals empty_table_schema = []"
    by (simp add: empty_table_schema_def)
  from invalidate_to_schema_shape[of empty_table_schema raw_example] z
  have u: "invalidate_to_schema raw_example (Some empty_table_schema) = Inr raw_example"
    by blast
  show ?thesis
    by (rule conjI[OF h1 conjI[OF h2 conjI[OF h3 conjI[OF e conjI[OF k conjI[OF z u]]]]]])
qed

text \<open>
  Claim C9, as stated, fails: a \<open>float32\<close> column of the schema is filled with the integer
  \<open>0\<close>, not with \<open>0.0\<close>; and for a schema without rows no column is added at all.
\<close>

theorem invalidate_defaults_counterexample:
  "invalidate_to_schema raw_example (Some float32_schema) =
     Inr (raw_example\<lparr>cols := [Column ''a'' (DInt W64) [PyInt 5, PyInt 7],
                                Column ''f'' (DInt W64) [PyInt 0, PyInt 0]]\<rparr>)
   \<and> spec_default (DFloat F32) = PyFloat 0
   \<and> invalidate_to_schema one_column_frame (Some empty_table_schema) = Inr one_column_frame
   \<and> ''b'' \<in> set (columns empty_table_schema)
   \<and> ''b'' \<notin> set (columns one_column_frame)"
  by (simp add: frame_eval raw_example_def float32_schema_def one_column_frame_def
      empty_table_schema_def spec_default_def spec_is_integer_def spec_is_float_def)

text \<open>
  Claim C9, amended: for a reference schema with at least one row and distinct column
  names, every schema column that is absent from the incoming dataset is in the result
  exactly once, holding in every row the default of its type: \<open>na\<close> for an object (text)
  column, \<open>False\<close> for a boolean column, \<open>0.0\<close> for a 64-bit floating-point column, and the
  integer \<open>0\<close> for every other type, the integers, the narrower floating-point types and the
  timestamps among them.
\<close>

theorem invalidate_to_schema_defaults:
  assumes "index_vals schema \<noteq> []" and "distinct (columns schema)"
    and "c \<in> set (cols schema)" and "col_name c \<notin> set (columns raw)"
  shows "\<exists>r. invalidate_to_schema raw (Some schema) = Inr r
     \<and> filter (\<lambda>x. col_name x = col_name c) (cols r)
         = [Column (col_name c) (scalar_dtype (get_defaults (col_dtype c)))
              (replicate (length (index_vals raw)) (get_defaults (col_dtype c)))]
     \<and> get_defaults (col_dtype c) =
         (case col_dtype c of
            DObject \<Rightarrow> PyStr ''na''
          | DBool \<Rightarrow> PyBool False
          | DFloat F64 \<Rightarrow> PyFloat 0
          | _ \<Rightarrow> PyInt 0)"
  using invalidate_default_fill[OF assms] get_defaults_cases[of "col_dtype c"]
  unfolding default_column_def by blast

theorem invalidate_to_schema_defaults_witness:
  "index_vals schema_example \<noteq> []
   \<and> distinct (columns schema_example)
   \<and> Column ''c'' DObject [PyStr ''z''] \<in> set (cols schema_example)
   \<and> ''c'' \<notin> set (columns raw_example)
   \<and> invalidate_to_schema raw_example (Some schema_example) =
       Inr (raw_example\<lparr>cols := [Column ''b'' (DFloat F64) [PyFloat 0, PyFloat 0],
                                  Column ''a'' (DInt W64) [PyInt 5, PyInt 7],
                                  Column ''c'' DObject [PyStr ''na'', PyStr ''na'']]\<rparr>)
   \<and> filter (\<lambda>x. col_name x = ''c'')
        (cols (raw_example\<lparr>cols := [Column ''b'' (DFloat F64) [PyFloat 0, PyFloat 0],
                                  Column ''a'' (DInt W64) [PyInt 5, PyInt 7],
                                  Column ''c'' DObject [PyStr ''na'', PyStr ''na'']]\<rparr>))
       = [Column ''c'' DObject [PyStr ''na'', PyStr ''na'']]"
proof -
  let ?x = "raw_example\<lparr>cols := [Column ''b'' (DFloat F64) [PyFloat 0, PyFloat 0],
                                  Column ''a'' (DInt W64) [PyInt 5, PyInt 7],
                                  Column ''c'' DObject [PyStr ''na'', PyStr ''na'']]\<rparr>"
  let ?c = "Column ''c'' DObject [PyStr ''z'']"
  have h1: "index_vals schema_example \<noteq> []"
    by (simp add: schema_example_def)
  have h2: "distinct (columns schema_example)"
    by (simp add: schema_example_def columns_def)
  have h3: "?c \<in> set (cols schema_example)"
    by (simp add: schema_example_def)
  have h4: "col_name ?c \<notin> set (columns raw_example)"
    by (simp add: raw_example_def columns_def)
  have e: "invalidate_to_schema raw_example (Some schema_example) = Inr ?x"
    by (rule invalidate_raw_example)
  from invalidate_to_schema_defaults[OF h1 h2 h3 h4]
  obtain r where r: "invalidate_to_schema raw_example (Some schema_example) = Inr r"
    and f: "filter (\<lambda>x. col_name x = col_name ?c) (cols r)
              = [Column (col_name ?c) (scalar_dtype (get_defaults (col_dtype ?c)))
                   (replicate (length (index_vals raw_example)) (get_defaults (col_dtype ?c)))]"
    by blast
  from r e have "r = ?x" by simp
  with f have "filter (\<lambda>x. col_name x = ''c'') (cols ?x)
                 = [Column ''c'' DObject [PyStr ''na'', PyStr ''na'']]"
    by (simp add: raw_example_def get_defaults_def dtype_eq_def np_dtype_def)
  with h1 h2 h3 h4 e show ?thesis by simp
qed

end
